theory Spec2Isabelle
  imports Main "HOL-Library.AList"
begin

section \<open>Data model (index.tsx, the types)\<close>

text \<open>
  The TypeScript string unions become datatypes, the interfaces become records. An
  optional field (\<^verbatim>\<open>date?: string\<close>) is an \<open>option\<close>; \<^verbatim>\<open>string | null\<close> is an
  \<open>option\<close> too. Record fields carry a short prefix where the source reuses a field
  name (\<^verbatim>\<open>id\<close>, \<^verbatim>\<open>text\<close>, \<^verbatim>\<open>status\<close>) in several interfaces. A JavaScript string
  is a \<open>string\<close>; \<open>length\<close> counts its characters as \<^verbatim>\<open>.length\<close> counts the code units
  of a text without astral characters.
\<close>

datatype ViewState = Login_screen | Upload | Analyzing | Dashboard

datatype ConflictType = TEMPORAL | CONTRADICTION | INTRA_DOC

datatype ResolutionStatus = OPEN | RESOLVED

datatype WorkspaceMode = View | Resolve | Preview | Verifying | Resolved | All_cleared

datatype ManualAction = UPDATE | CLARIFY | ERROR | KEEP

datatype SourceType = Main_source | Appendix | Policy | RFP

record Mention =
  m_id :: string
  m_docId :: string
  m_docName :: string
  m_page :: int
  m_section :: string
  m_text :: string
  m_date :: "string option"
  m_sourceType :: "SourceType option"

record Conflict =
  c_id :: string
  c_type :: ConflictType
  c_title :: string
  c_description :: string
  c_mentions :: "Mention list"
  c_status :: ResolutionStatus
  c_aiRecommendation :: "string option"
  c_resolvedAt :: "string option"

record ManualEdit =
  e_text :: string
  e_action :: ManualAction
  e_isDirty :: bool

text \<open>
  \<^verbatim>\<open>edits: Record<string, ManualEdit>\<close> is an association list in insertion order: a
  JavaScript object keeps the position of a key that is written again and appends a
  new key, which is what \<open>AList.update\<close> does; a key is read with \<open>map_of\<close>.
\<close>

record ResolutionDraft =
  conflictId :: string
  selectedTemporalId :: "string option"
  keepHistory :: "bool option"
  selectedCorrectId :: "string option"
  reasoning :: "string option"
  edits :: "(string \<times> ManualEdit) list"

datatype UploadStatus = Pending | Uploading | Complete | Failed

record UploadFile =
  f_name :: string
  f_size :: string
  f_status :: UploadStatus

record StoreState =
  view :: ViewState
  currentUser :: "string option"
  files :: "UploadFile list"
  conflicts :: "Conflict list"
  selectedConflictId :: "string option"
  workspaceMode :: WorkspaceMode
  resolutionDraft :: "ResolutionDraft option"

text \<open>
  \<^verbatim>\<open>Partial<ResolutionDraft>\<close>, the argument of \<^verbatim>\<open>updateDraft\<close>: every key may be absent
  (\<open>None\<close>); a key that is present carries its value, which for an optional field of the
  draft may itself be \<^verbatim>\<open>undefined\<close> (\<open>Some None\<close>).
\<close>

record DraftUpdates =
  u_conflictId :: "string option"
  u_selectedTemporalId :: "string option option"
  u_keepHistory :: "bool option option"
  u_selectedCorrectId :: "string option option"
  u_reasoning :: "string option option"
  u_edits :: "(string \<times> ManualEdit) list option"

section \<open>The diff engine (simpleDiff)\<close>

text \<open>
  The rendered JSX: a \<^verbatim>\<open>span\<close> with its class and its text, or a \<^verbatim>\<open>div\<close> with its
  class and its children.
\<close>

datatype jsx = Span string string | Div string "jsx list"

text \<open>
  \<^verbatim>\<open>/\s+/\<close> on the characters a \<open>char\<close> can hold: tab, line feed, vertical tab, form
  feed, carriage return, space and the no-break space.
\<close>

definition isWhitespace :: "char \<Rightarrow> bool" where
  "isWhitespace c = (of_char c \<in> {9, 10, 11, 12, 13, 32, 160 :: nat})"

text \<open>
  \<^verbatim>\<open>s.split(/\s+/)\<close>: the pieces between maximal runs of whitespace; a run at either end
  leaves an empty piece there, and the empty string splits into one empty piece.
  \<open>cur\<close> is the piece being read (reversed), \<open>inws\<close> says that the previous character
  was whitespace.
\<close>

fun splitWords :: "string \<Rightarrow> bool \<Rightarrow> string \<Rightarrow> string list" where
  "splitWords cur inws [] = [rev cur]"
| "splitWords cur inws (c # cs) =
     (if isWhitespace c
      then (if inws then splitWords cur True cs else rev cur # splitWords [] True cs)
      else splitWords (c # cur) False cs)"

definition noChangeClass :: string where
  "noChangeClass = ''text-ink/60''"

definition diffClass :: string where
  "diffClass = ''font-serif leading-relaxed''"

definition deletedClass :: string where
  "deletedClass =
     ''bg-red-100 text-red-900 line-through decoration-red-900/50 mr-2 px-1 select-none opacity-60''"

definition insertedClass :: string where
  "insertedClass = ''bg-green-100 text-green-900 px-1 font-medium border-b-2 border-green-500''"

text \<open>
  \<^verbatim>\<open>simpleDiff\<close> splits both texts into words and then never reads the words: equal texts
  give the "No changes detected." span, different texts give the whole old text struck
  through followed by the whole new text.
\<close>

definition simpleDiff :: "string \<Rightarrow> string \<Rightarrow> jsx" where
  "simpleDiff oldText newText =
     (let oldWords = splitWords [] False oldText;
          newWords = splitWords [] False newText
      in if oldText = newText then Span noChangeClass ''No changes detected.''
         else Div diffClass [Span deletedClass oldText, Span insertedClass newText])"

section \<open>Mock data (MOCK_CONFLICTS)\<close>

definition mention :: "string \<Rightarrow> string \<Rightarrow> string \<Rightarrow> int \<Rightarrow> string \<Rightarrow> string \<Rightarrow> string option \<Rightarrow> Mention" where
  "mention i d n p s t dt =
     \<lparr>m_id = i, m_docId = d, m_docName = n, m_page = p, m_section = s, m_text = t,
      m_date = dt, m_sourceType = None\<rparr>"

definition MOCK_CONFLICTS :: "Conflict list" where
  "MOCK_CONFLICTS =
   [\<lparr>c_id = ''C-001'', c_type = TEMPORAL,
     c_title = ''Security Certification Evolution'',
     c_description = ''Multiple certification standards detected across RFP responses from different years.'',
     c_mentions =
       [mention ''m1'' ''d1'' ''2022_Healthcare_RFP.pdf'' 12 ''3. Security''
          ''We are SOC 2 Type 1 certified'' (Some ''June 15, 2022''),
        mention ''m2'' ''d2'' ''2023_FinServ_RFP.docx'' 8 ''2. Compliance''
          ''We are SOC 2 Type 2 certified'' (Some ''March 20, 2023''),
        mention ''m3'' ''d3'' ''2024_Enterprise_RFP.pdf'' 15 ''4. Certifications''
          ''We are HITRUST certified'' (Some ''Jan 10, 2024'')],
     c_status = OPEN,
     c_aiRecommendation = Some ''Mark HITRUST (2024) as current. Tag older versions as Historical.'',
     c_resolvedAt = None\<rparr>,
    \<lparr>c_id = ''C-002'', c_type = CONTRADICTION,
     c_title = ''HIPAA Compliance Status'',
     c_description = ''Direct contradiction between RFP response and internal policy document regarding BAA readiness.'',
     c_mentions =
       [mention ''m4'' ''d3'' ''2024_Enterprise_RFP.pdf'' 22 ''5.1 Privacy''
          ''We are HIPAA compliant and BAA-ready'' None,
        mention ''m5'' ''d4'' ''2024_Product_Specs.pdf'' 4 ''Roadmap''
          ''HIPAA compliance certification pending Q2 2024'' None],
     c_status = OPEN,
     c_aiRecommendation = Some ''Verify correct status with Compliance Officer.'',
     c_resolvedAt = None\<rparr>,
    \<lparr>c_id = ''C-003'', c_type = INTRA_DOC,
     c_title = ''Service Pricing Inconsistency'',
     c_description = ''Conflicting pricing figures detected within the same Master Services Agreement.'',
     c_mentions =
       [mention ''m6'' ''d5'' ''Enterprise_Services_Agreement.pdf'' 12 ''4. Fees''
          ''Monthly fee: $50,000 per month'' None,
        mention ''m7'' ''d5'' ''Enterprise_Services_Agreement.pdf'' 34 ''9. Premium Tier''
          ''Customer will pay $45,000 monthly'' None,
        mention ''m8'' ''d5'' ''Enterprise_Services_Agreement.pdf'' 67 ''Appendix A''
          ''Total monthly recurring: $52,000'' None],
     c_status = OPEN,
     c_aiRecommendation = Some ''Edit document to ensure consistent pricing value.'',
     c_resolvedAt = None\<rparr>]"

section \<open>The store (useStore)\<close>

definition initialStore :: StoreState where
  "initialStore =
     \<lparr>view = Login_screen, currentUser = None, files = [], conflicts = [],
      selectedConflictId = None, workspaceMode = View, resolutionDraft = None\<rparr>"

definition login :: "string \<Rightarrow> StoreState \<Rightarrow> StoreState" where
  "login username s =
     s\<lparr>currentUser := Some username, view := Upload, files := [], conflicts := [],
       selectedConflictId := None, workspaceMode := View, resolutionDraft := None\<rparr>"

definition logout :: "StoreState \<Rightarrow> StoreState" where
  "logout s =
     s\<lparr>currentUser := None, view := Login_screen, files := [], conflicts := [],
       selectedConflictId := None, workspaceMode := View, resolutionDraft := None\<rparr>"

definition setView :: "ViewState \<Rightarrow> StoreState \<Rightarrow> StoreState" where
  "setView v s = s\<lparr>view := v\<rparr>"

definition setFiles :: "UploadFile list \<Rightarrow> StoreState \<Rightarrow> StoreState" where
  "setFiles fs s = s\<lparr>files := fs\<rparr>"

definition selectConflict :: "string \<Rightarrow> StoreState \<Rightarrow> StoreState" where
  "selectConflict i s =
     s\<lparr>selectedConflictId := Some i, workspaceMode := View, resolutionDraft := None\<rparr>"

text \<open>\<^verbatim>\<open>MOCK_CONFLICTS[0].id\<close>: the list is the non-empty constant above.\<close>

definition loadMockData :: "StoreState \<Rightarrow> StoreState" where
  "loadMockData s =
     s\<lparr>conflicts := MOCK_CONFLICTS, selectedConflictId := Some (c_id (hd MOCK_CONFLICTS))\<rparr>"

text \<open>
  \<^verbatim>\<open>if (!state.selectedConflictId) return;\<close> leaves the store alone for \<^verbatim>\<open>null\<close> and
  for the empty string, both falsy.
\<close>

definition startResolution :: "StoreState \<Rightarrow> StoreState" where
  "startResolution s =
     (case selectedConflictId s of
        None \<Rightarrow> s
      | Some i \<Rightarrow>
          if i = [] then s
          else s\<lparr>workspaceMode := Resolve,
                 resolutionDraft := Some
                   \<lparr>conflictId = i, selectedTemporalId = None, keepHistory = None,
                    selectedCorrectId = None, reasoning = None, edits = []\<rparr>\<rparr>)"

definition cancelResolution :: "StoreState \<Rightarrow> StoreState" where
  "cancelResolution s = s\<lparr>workspaceMode := View, resolutionDraft := None\<rparr>"

definition goToPreview :: "StoreState \<Rightarrow> StoreState" where
  "goToPreview s = s\<lparr>workspaceMode := Preview\<rparr>"

definition returnToEdit :: "StoreState \<Rightarrow> StoreState" where
  "returnToEdit s = s\<lparr>workspaceMode := Resolve\<rparr>"

definition submitResolution :: "StoreState \<Rightarrow> StoreState" where
  "submitResolution s = s\<lparr>workspaceMode := Verifying\<rparr>"

text \<open>
  \<^verbatim>\<open>new Date().toISOString()\<close> is the parameter \<open>now\<close>: the source reads the clock for
  each conflict it marks, the model takes one reading, which is the same thing when one
  conflict has the selected id. \<^verbatim>\<open>c.id === state.selectedConflictId\<close> is false for every
  conflict when the selection is \<^verbatim>\<open>null\<close>.
\<close>

definition markSelected :: "string \<Rightarrow> string option \<Rightarrow> Conflict \<Rightarrow> Conflict" where
  "markSelected now sel c =
     (if Some (c_id c) = sel then c\<lparr>c_status := RESOLVED, c_resolvedAt := Some now\<rparr> else c)"

definition finalizeResolution :: "string \<Rightarrow> StoreState \<Rightarrow> StoreState" where
  "finalizeResolution now s =
     s\<lparr>workspaceMode := Resolved,
       conflicts := map (markSelected now (selectedConflictId s)) (conflicts s)\<rparr>"

definition setAllCleared :: "StoreState \<Rightarrow> StoreState" where
  "setAllCleared s = s\<lparr>workspaceMode := All_cleared, selectedConflictId := None\<rparr>"

text \<open>
  \<^verbatim>\<open>conflict.mentions.forEach(m => { edits[m.id] = ... })\<close>: a later mention with the same
  id overwrites the entry of an earlier one. Mention ids are taken to be ordinary
  property names.
\<close>

definition pristineEdit :: "Mention \<Rightarrow> ManualEdit" where
  "pristineEdit m = \<lparr>e_text = m_text m, e_action = UPDATE, e_isDirty = False\<rparr>"

definition initialEdits :: "Mention list \<Rightarrow> (string \<times> ManualEdit) list" where
  "initialEdits ms = fold (\<lambda>m es. AList.update (m_id m) (pristineEdit m) es) ms []"

definition initManualDraft :: "Conflict \<Rightarrow> StoreState \<Rightarrow> StoreState" where
  "initManualDraft conflict s =
     s\<lparr>workspaceMode := Resolve,
       resolutionDraft := Some
         \<lparr>conflictId = c_id conflict, selectedTemporalId = None, keepHistory = None,
          selectedCorrectId = None, reasoning = None,
          edits = initialEdits (c_mentions conflict)\<rparr>\<rparr>"

text \<open>\<^verbatim>\<open>{ ...state.resolutionDraft, ...updates }\<close>: a key of \<open>updates\<close> wins when present.\<close>

definition spread :: "'a \<Rightarrow> 'a option \<Rightarrow> 'a" where
  "spread old upd = (case upd of None \<Rightarrow> old | Some v \<Rightarrow> v)"

definition mergeDraft :: "ResolutionDraft \<Rightarrow> DraftUpdates \<Rightarrow> ResolutionDraft" where
  "mergeDraft d u =
     \<lparr>conflictId = spread (conflictId d) (u_conflictId u),
      selectedTemporalId = spread (selectedTemporalId d) (u_selectedTemporalId u),
      keepHistory = spread (keepHistory d) (u_keepHistory u),
      selectedCorrectId = spread (selectedCorrectId d) (u_selectedCorrectId u),
      reasoning = spread (reasoning d) (u_reasoning u),
      edits = spread (edits d) (u_edits u)\<rparr>"

definition updateDraft :: "DraftUpdates \<Rightarrow> StoreState \<Rightarrow> StoreState" where
  "updateDraft updates s =
     s\<lparr>resolutionDraft :=
         (case resolutionDraft s of None \<Rightarrow> None | Some d \<Rightarrow> Some (mergeDraft d updates))\<rparr>"

text \<open>
  \<^verbatim>\<open>state.conflicts.find(c => c.id === state.selectedConflictId)?.mentions.find(m => m.id === mentionId)\<close>:
  the first conflict with the selected id, then its first mention with the given id.
\<close>

definition selectedConflict :: "StoreState \<Rightarrow> Conflict option" where
  "selectedConflict s = find (\<lambda>c. Some (c_id c) = selectedConflictId s) (conflicts s)"

definition originalMention :: "StoreState \<Rightarrow> string \<Rightarrow> Mention option" where
  "originalMention s mentionId =
     (case selectedConflict s of
        None \<Rightarrow> None
      | Some c \<Rightarrow> find (\<lambda>m. m_id m = mentionId) (c_mentions c))"

text \<open>\<^verbatim>\<open>originalMention ? text !== originalMention.text : true\<close>\<close>

definition computeDirty :: "StoreState \<Rightarrow> string \<Rightarrow> string \<Rightarrow> bool" where
  "computeDirty s mentionId txt =
     (case originalMention s mentionId of None \<Rightarrow> True | Some m \<Rightarrow> txt \<noteq> m_text m)"

definition updateManualEdit :: "string \<Rightarrow> string \<Rightarrow> ManualAction \<Rightarrow> StoreState \<Rightarrow> StoreState" where
  "updateManualEdit mentionId txt action s =
     (case resolutionDraft s of
        None \<Rightarrow> s
      | Some d \<Rightarrow>
          s\<lparr>resolutionDraft := Some
              (d\<lparr>edits := AList.update mentionId
                   \<lparr>e_text = txt, e_action = action, e_isDirty = computeDirty s mentionId txt\<rparr>
                   (edits d)\<rparr>)\<rparr>)"

section \<open>Sequences of store actions\<close>

datatype Action =
    Login string
  | Logout
  | SetView ViewState
  | SetFiles "UploadFile list"
  | SelectConflict string
  | LoadMockData
  | StartResolution
  | CancelResolution
  | GoToPreview
  | ReturnToEdit
  | SubmitResolution
  | FinalizeResolution string
  | SetAllCleared
  | UpdateDraft DraftUpdates
  | UpdateManualEdit string string ManualAction
  | InitManualDraft Conflict

fun perform :: "Action \<Rightarrow> StoreState \<Rightarrow> StoreState" where
  "perform (Login u) s = login u s"
| "perform Logout s = logout s"
| "perform (SetView v) s = setView v s"
| "perform (SetFiles fs) s = setFiles fs s"
| "perform (SelectConflict i) s = selectConflict i s"
| "perform LoadMockData s = loadMockData s"
| "perform StartResolution s = startResolution s"
| "perform CancelResolution s = cancelResolution s"
| "perform GoToPreview s = goToPreview s"
| "perform ReturnToEdit s = returnToEdit s"
| "perform SubmitResolution s = submitResolution s"
| "perform (FinalizeResolution now) s = finalizeResolution now s"
| "perform SetAllCleared s = setAllCleared s"
| "perform (UpdateDraft u) s = updateDraft u s"
| "perform (UpdateManualEdit i t a) s = updateManualEdit i t a s"
| "perform (InitManualDraft c) s = initManualDraft c s"

fun run :: "Action list \<Rightarrow> StoreState \<Rightarrow> StoreState" where
  "run [] s = s"
| "run (a # as) s = run as (perform a s)"

section \<open>The callers in the workspace components\<close>

text \<open>
  \<^verbatim>\<open>ConflictWorkspace\<close> looks the selected conflict up and returns early for the
  \<^verbatim>\<open>all_cleared\<close> mode, for a missing conflict, and for the \<^verbatim>\<open>verifying\<close> and
  \<^verbatim>\<open>resolved\<close> modes; the action footer is rendered for a conflict that is not
  RESOLVED. \<open>footerShown\<close> says that the footer is reached.
\<close>

definition footerShown :: "StoreState \<Rightarrow> bool" where
  "footerShown s =
     (workspaceMode s \<noteq> All_cleared \<and>
      (case selectedConflict s of
         None \<Rightarrow> False
       | Some c \<Rightarrow>
           workspaceMode s \<noteq> Verifying \<and> workspaceMode s \<noteq> Resolved \<and>
           c_status c \<noteq> RESOLVED))"

text \<open>
  The "Preview Changes" button: rendered in the footer in \<^verbatim>\<open>resolve\<close> mode, with
  \<^verbatim>\<open>onClick={goToPreview}\<close> and no \<^verbatim>\<open>disabled\<close> property.
\<close>

definition clickPreviewChanges :: "StoreState \<Rightarrow> StoreState" where
  "clickPreviewChanges s =
     (if footerShown s \<and> workspaceMode s = Resolve then goToPreview s else s)"

text \<open>
  The counter under the reasoning box of \<^verbatim>\<open>ContradictionResolutionForm\<close>:
  \<^verbatim>\<open>resolutionDraft?.reasoning?.length || 0\<close>, shown in red below 20 next to the label
  "/ 20 MIN CHARS".
\<close>

definition reasoningLength :: "StoreState \<Rightarrow> nat" where
  "reasoningLength s =
     (case resolutionDraft s of
        None \<Rightarrow> 0
      | Some d \<Rightarrow> (case reasoning d of None \<Rightarrow> 0 | Some r \<Rightarrow> length r))"

definition reasoningCounterRed :: "StoreState \<Rightarrow> bool" where
  "reasoningCounterRed s = (reasoningLength s < 20)"

text \<open>
  The textarea of \<^verbatim>\<open>ManualEditorForm\<close> for one mention: \<^verbatim>\<open>onChange\<close> passes the typed
  value on with the action of the stored edit (\<^verbatim>\<open>draft?.action || 'UPDATE'\<close>); the
  element has no \<^verbatim>\<open>maxLength\<close>. Below it the form prints \<^verbatim>\<open>{charCount}/1000\<close>, with
  \<^verbatim>\<open>charCount = draft?.text.length || 0\<close>.
\<close>

definition storedEdit :: "StoreState \<Rightarrow> string \<Rightarrow> ManualEdit option" where
  "storedEdit s mentionId =
     (case resolutionDraft s of None \<Rightarrow> None | Some d \<Rightarrow> map_of (edits d) mentionId)"

definition typeIntoEditor :: "string \<Rightarrow> string \<Rightarrow> StoreState \<Rightarrow> StoreState" where
  "typeIntoEditor mentionId val s =
     updateManualEdit mentionId val
       (case storedEdit s mentionId of None \<Rightarrow> UPDATE | Some e \<Rightarrow> e_action e) s"

definition charCount :: "StoreState \<Rightarrow> string \<Rightarrow> nat" where
  "charCount s mentionId =
     (case storedEdit s mentionId of None \<Rightarrow> 0 | Some e \<Rightarrow> length (e_text e))"

text \<open>
  \<^verbatim>\<open>ResolvedView\<close>: \<^verbatim>\<open>conflicts.find(c => c.status === 'OPEN' && c.id !== conflict.id)\<close>
  and the handler of its button. \<^verbatim>\<open>ConflictWorkspace\<close> renders the view, for the
  selected conflict, in \<^verbatim>\<open>resolved\<close> mode only.
\<close>

definition nextConflict :: "Conflict \<Rightarrow> StoreState \<Rightarrow> Conflict option" where
  "nextConflict conflict s =
     find (\<lambda>c. c_status c = OPEN \<and> c_id c \<noteq> c_id conflict) (conflicts s)"

definition handleNext :: "Conflict \<Rightarrow> StoreState \<Rightarrow> StoreState" where
  "handleNext conflict s =
     (case nextConflict conflict s of
        Some n \<Rightarrow> selectConflict (c_id n) s
      | None \<Rightarrow> setAllCleared s)"

definition advance :: "StoreState \<Rightarrow> StoreState" where
  "advance s =
     (if workspaceMode s = Resolved
      then (case selectedConflict s of None \<Rightarrow> s | Some c \<Rightarrow> handleNext c s)
      else s)"

text \<open>
  The buttons "Edit Manually" and "Edit to Fix" call \<^verbatim>\<open>initManualDraft(conflict)\<close> with
  the conflict \<^verbatim>\<open>ConflictWorkspace\<close> found for the selection. \<open>editorAction c a\<close> says
  that \<open>a\<close> is such a call for \<open>c\<close>, or any \<^verbatim>\<open>updateManualEdit\<close>.
\<close>

fun editorAction :: "Conflict \<Rightarrow> Action \<Rightarrow> bool" where
  "editorAction c (InitManualDraft c') = (c' = c)"
| "editorAction c (UpdateManualEdit i t a) = True"
| "editorAction c _ = False"

text \<open>
  The registry invariant of the data model: \<^verbatim>\<open>resolvedAt\<close> is there exactly for a
  RESOLVED conflict.
\<close>

definition stampedIffResolved :: "Conflict \<Rightarrow> bool" where
  "stampedIffResolved c = ((c_resolvedAt c \<noteq> None) = (c_status c = RESOLVED))"

text \<open>
  What \<^verbatim>\<open>isDirty\<close> has to say about a stored edit: the text differs from the text
  of the selected conflict's mention, and an id with no mention counts as changed.
\<close>

definition dirtyAgrees :: "Conflict \<Rightarrow> string \<Rightarrow> ManualEdit \<Rightarrow> bool" where
  "dirtyAgrees c mentionId e =
     (e_isDirty e =
        (case find (\<lambda>m. m_id m = mentionId) (c_mentions c) of
           None \<Rightarrow> True
         | Some m \<Rightarrow> e_text e \<noteq> m_text m))"

text \<open>
  What \<^verbatim>\<open>ConflictWorkspace\<close> puts on screen, in the order of its early returns: the
  all-clear view, the "Select a conflict to begin resolution" prompt for a selection
  that matches no conflict, the verification view, the resolved view of the selected
  conflict, and otherwise the workspace of the selected conflict.
\<close>

datatype Screen =
    AllClearView
  | SelectPrompt
  | VerificationView
  | ResolvedView Conflict
  | WorkspaceView Conflict

definition conflictWorkspace :: "StoreState \<Rightarrow> Screen" where
  "conflictWorkspace s =
     (if workspaceMode s = All_cleared then AllClearView
      else (case selectedConflict s of
              None \<Rightarrow> SelectPrompt
            | Some c \<Rightarrow>
                if workspaceMode s = Verifying then VerificationView
                else if workspaceMode s = Resolved then ResolvedView c
                else WorkspaceView c))"

text \<open>
  The \<^verbatim>\<open>Sidebar\<close>: \<^verbatim>\<open>App\<close> renders it in the dashboard view, in every workspace mode;
  with its search box empty and its filter off it lists every conflict of the registry,
  each with \<^verbatim>\<open>onClick={() => selectConflict(conflict.id)}\<close>.
\<close>

definition clickSidebarItem :: "string \<Rightarrow> StoreState \<Rightarrow> StoreState" where
  "clickSidebarItem i s =
     (if view s = Dashboard \<and> i \<in> set (map c_id (conflicts s)) then selectConflict i s else s)"

text \<open>
  \<^verbatim>\<open>VerificationView\<close>: its effect schedules the five log messages when the view is
  mounted, and the last of them schedules \<^verbatim>\<open>setTimeout(finalizeResolution, 800)\<close>. The
  effect returns no cleanup, so nothing cancels the timers when the view goes away: the
  callback runs on the store as it is when the timer fires.
\<close>

definition verificationTimerFires :: "string \<Rightarrow> StoreState \<Rightarrow> StoreState" where
  "verificationTimerFires now s = finalizeResolution now s"

section \<open>Scenarios on the mock data\<close>

definition firstStamp :: string where
  "firstStamp = ''2026-01-01T09:00:00.000Z''"

definition secondStamp :: string where
  "secondStamp = ''2026-01-02T09:00:00.000Z''"

text \<open>After login and the upload screen's \<^verbatim>\<open>loadMockData\<close>: C-001 is selected, in view mode.\<close>

definition loadedStore :: StoreState where
  "loadedStore = run [Login ''analyst'', LoadMockData, SetView Dashboard] initialStore"

text \<open>C-001 taken through the whole flow: submitted, then finalized at the first time.\<close>

definition verifyingStore :: StoreState where
  "verifyingStore = run [StartResolution, GoToPreview, SubmitResolution] loadedStore"

definition resolvedOnce :: StoreState where
  "resolvedOnce = finalizeResolution firstStamp verifyingStore"

text \<open>The store after each of the three conflicts was resolved in turn.\<close>

definition resolveSelected :: "string \<Rightarrow> StoreState \<Rightarrow> StoreState" where
  "resolveSelected now s =
     run [StartResolution, GoToPreview, SubmitResolution, FinalizeResolution now] s"

definition allResolved :: StoreState where
  "allResolved =
     resolveSelected secondStamp (advance (resolveSelected secondStamp (advance resolvedOnce)))"

text \<open>
  The contradiction C-002 in resolve mode, with the reasoning "ok" typed and no
  statement picked.
\<close>

definition reasoningOnly :: "string \<Rightarrow> DraftUpdates" where
  "reasoningOnly r =
     \<lparr>u_conflictId = None, u_selectedTemporalId = None, u_keepHistory = None,
      u_selectedCorrectId = None, u_reasoning = Some (Some r), u_edits = None\<rparr>"

definition contradictionDraft :: StoreState where
  "contradictionDraft =
     run [SelectConflict ''C-002'', StartResolution, UpdateDraft (reasoningOnly ''ok'')] loadedStore"

text \<open>The intra-document conflict C-003 in the manual editor ("Edit to Fix").\<close>

definition pricingConflict :: Conflict where
  "pricingConflict = MOCK_CONFLICTS ! 2"

definition manualDraft :: StoreState where
  "manualDraft = run [SelectConflict ''C-003'', InitManualDraft pricingConflict] loadedStore"

text \<open>A text of 1001 characters for the editor.\<close>

definition longText :: string where
  "longText = replicate 1001 (CHR ''a'')"

text \<open>
  While C-001 is being verified, C-002 is clicked in the sidebar; then the pending
  timer of the verification fires.
\<close>

definition strayFinalize :: StoreState where
  "strayFinalize = verificationTimerFires firstStamp (clickSidebarItem ''C-002'' verifyingStore)"

text \<open>
  C-001 is resolved; the next conflict C-002 is taken to verification; the resolved
  C-001 is clicked in the sidebar; then the pending timer fires, at the second time.
\<close>

definition verifyingSecond :: StoreState where
  "verifyingSecond = run [StartResolution, GoToPreview, SubmitResolution] (advance resolvedOnce)"

definition restamped :: StoreState where
  "restamped = verificationTimerFires secondStamp (clickSidebarItem ''C-001'' verifyingSecond)"

text \<open>
  While C-001 is being verified the user logs out and in again; the pending timer fires
  on the upload screen, where nothing is selected; then the analysis loads the mock
  data and opens the dashboard.
\<close>

definition timerAfterRelogin :: StoreState where
  "timerAfterRelogin =
     verificationTimerFires firstStamp (run [Logout, Login ''analyst''] verifyingStore)"

definition dashboardAfterRelogin :: StoreState where
  "dashboardAfterRelogin = run [SetView Analyzing, LoadMockData, SetView Dashboard] timerAfterRelogin"

section \<open>Shared facts about the store actions\<close>

lemmas action_defs = login_def logout_def setView_def setFiles_def selectConflict_def
  loadMockData_def startResolution_def cancelResolution_def goToPreview_def returnToEdit_def
  submitResolution_def finalizeResolution_def setAllCleared_def initManualDraft_def
  updateDraft_def updateManualEdit_def

lemma conflicts_unchanged:
  "conflicts (selectConflict i s) = conflicts s"
  "conflicts (startResolution s) = conflicts s"
  "conflicts (cancelResolution s) = conflicts s"
  "conflicts (goToPreview s) = conflicts s"
  "conflicts (returnToEdit s) = conflicts s"
  "conflicts (submitResolution s) = conflicts s"
  "conflicts (updateDraft u s) = conflicts s"
  "conflicts (updateManualEdit m t a s) = conflicts s"
  "conflicts (initManualDraft c s) = conflicts s"
  "conflicts (setAllCleared s) = conflicts s"
  "conflicts (setView v s) = conflicts s"
  "conflicts (setFiles fs s) = conflicts s"
  by (simp_all add: action_defs split: option.split)

lemma markSelected_other: "Some (c_id c) \<noteq> sel \<Longrightarrow> markSelected now sel c = c"
  by (simp add: markSelected_def)

lemma map_markSelected_none:
  "\<forall>c\<in>set cs. Some (c_id c) \<noteq> sel \<Longrightarrow> map (markSelected now sel) cs = cs"
  by (induction cs) (simp_all add: markSelected_other)

lemma markSelected_keeps_invariant:
  "stampedIffResolved c \<Longrightarrow> stampedIffResolved (markSelected now sel c)"
  by (simp add: stampedIffResolved_def markSelected_def)

lemma mock_invariant: "list_all stampedIffResolved MOCK_CONFLICTS"
  by (simp add: MOCK_CONFLICTS_def stampedIffResolved_def)

lemma perform_keeps_invariant:
  "list_all stampedIffResolved (conflicts s) \<Longrightarrow> list_all stampedIffResolved (conflicts (perform a s))"
proof (cases a)
  case (FinalizeResolution now)
  assume "list_all stampedIffResolved (conflicts s)"
  then show ?thesis
    unfolding FinalizeResolution
    by (simp add: finalizeResolution_def list_all_iff markSelected_keeps_invariant)
next
  case LoadMockData
  then show ?thesis by (simp add: loadMockData_def mock_invariant)
qed (simp_all add: conflicts_unchanged login_def logout_def)

lemma run_keeps_invariant:
  "list_all stampedIffResolved (conflicts s) \<Longrightarrow> list_all stampedIffResolved (conflicts (run acts s))"
  by (induction acts arbitrary: s) (simp_all add: perform_keeps_invariant)

lemmas scenario_defs = loadedStore_def verifyingStore_def resolvedOnce_def
  resolveSelected_def allResolved_def contradictionDraft_def manualDraft_def initialStore_def
  firstStamp_def secondStamp_def reasoningOnly_def pricingConflict_def

lemma loadedStore_fields:
  "conflicts loadedStore = MOCK_CONFLICTS"
  "selectedConflictId loadedStore = Some ''C-001''"
  "workspaceMode loadedStore = View"
  "resolutionDraft loadedStore = None"
  by (simp_all add: scenario_defs action_defs MOCK_CONFLICTS_def)

lemma verifyingStore_fields:
  "conflicts verifyingStore = MOCK_CONFLICTS"
  "selectedConflictId verifyingStore = Some ''C-001''"
  "workspaceMode verifyingStore = Verifying"
  by (simp_all add: verifyingStore_def loadedStore_fields action_defs)

lemma resolvedOnce_fields:
  "conflicts resolvedOnce = map (markSelected firstStamp (Some ''C-001'')) MOCK_CONFLICTS"
  "selectedConflictId resolvedOnce = Some ''C-001''"
  "workspaceMode resolvedOnce = Resolved"
  by (simp_all add: resolvedOnce_def finalizeResolution_def verifyingStore_fields)

lemma verifyingStore_view: "view verifyingStore = Dashboard"
  by (simp add: verifyingStore_def loadedStore_def initialStore_def action_defs)

section \<open>The registry invariant\<close>

text \<open>
  Claim C5. In every store reached from the initial store by any sequence of store
  actions (the mock conflict list is loaded by one of them), every conflict of the
  registry has a resolution timestamp if and only if its status is RESOLVED.
\<close>

theorem resolvedAt_iff_RESOLVED:
  "\<forall>c\<in>set (conflicts (run acts initialStore)). (c_resolvedAt c \<noteq> None) = (c_status c = RESOLVED)"
proof -
  have "list_all stampedIffResolved (conflicts initialStore)"
    by (simp add: initialStore_def)
  then have "list_all stampedIffResolved (conflicts (run acts initialStore))"
    by (rule run_keeps_invariant)
  then show ?thesis
    by (simp add: list_all_iff stampedIffResolved_def)
qed

theorem resolvedAt_iff_RESOLVED_witness:
  "c_status (hd (conflicts resolvedOnce)) = RESOLVED \<and>
   c_resolvedAt (hd (conflicts resolvedOnce)) = Some firstStamp \<and>
   c_status (conflicts resolvedOnce ! 1) = OPEN \<and>
   c_resolvedAt (conflicts resolvedOnce ! 1) = None"
proof -
  let ?acts = "[Login ''analyst'', LoadMockData, SetView Dashboard, StartResolution, GoToPreview,
                SubmitResolution, FinalizeResolution firstStamp]"
  have eq: "run ?acts initialStore = resolvedOnce"
    by (simp add: resolvedOnce_def verifyingStore_def loadedStore_def)
  have cs: "conflicts resolvedOnce = map (markSelected firstStamp (Some ''C-001'')) MOCK_CONFLICTS"
    by (simp add: resolvedOnce_def finalizeResolution_def verifyingStore_fields)
  have m1: "conflicts resolvedOnce ! 1 \<in> set (conflicts resolvedOnce)"
    by (simp add: cs MOCK_CONFLICTS_def)
  have s0: "c_status (hd (conflicts resolvedOnce)) = RESOLVED"
    and s1: "c_resolvedAt (hd (conflicts resolvedOnce)) = Some firstStamp"
    and s2: "c_resolvedAt (conflicts resolvedOnce ! 1) = None"
    by (simp_all add: cs MOCK_CONFLICTS_def markSelected_def)
  from resolvedAt_iff_RESOLVED [of ?acts] eq
  have all: "\<forall>c\<in>set (conflicts resolvedOnce). (c_resolvedAt c \<noteq> None) = (c_status c = RESOLVED)"
    by simp
  from all m1 s2 have "c_status (conflicts resolvedOnce ! 1) \<noteq> RESOLVED"
    by blast
  then have "c_status (conflicts resolvedOnce ! 1) = OPEN"
    by (cases "c_status (conflicts resolvedOnce ! 1)") simp_all
  with s0 s1 s2 show ?thesis by simp
qed

section \<open>The diff engine\<close>

text \<open>
  Claim C6. For every string \<open>x\<close>, the diff of \<open>x\<close> with itself is the neutral
  "No changes detected." rendering; for all strings \<open>x \<noteq> y\<close> the diff is one struck-through
  span holding the whole of \<open>x\<close> followed by one inserted span holding the whole of \<open>y\<close>,
  and nothing else: the words the function splits off are not used.
\<close>
theorem simpleDiff_whole_spans:
  "simpleDiff x x = Span noChangeClass ''No changes detected.'' \<and>
   (x \<noteq> y \<longrightarrow> simpleDiff x y = Div diffClass [Span deletedClass x, Span insertedClass y])"
  by (simp add: simpleDiff_def)

theorem simpleDiff_whole_spans_witness:
  "simpleDiff ''Monthly fee: $50,000 per month'' ''Monthly fee: $52,000 per month'' =
     Div diffClass
       [Span deletedClass ''Monthly fee: $50,000 per month'',
        Span insertedClass ''Monthly fee: $52,000 per month'']"
proof -
  have ne: "''Monthly fee: $50,000 per month'' \<noteq> ''Monthly fee: $52,000 per month''"
    by simp
  from simpleDiff_whole_spans [of "''Monthly fee: $50,000 per month''" "''Monthly fee: $52,000 per month''"] ne
  show ?thesis by blast
qed

section \<open>Selecting a conflict\<close>

text \<open>
  Claim C2 on the code. While C-001 is being verified the verification view is on
  screen and the sidebar still lists every conflict. The claim has a selection refused
  in that mode; a click on C-002 changes the store: C-002 is selected, the mode is view
  and the draft is gone. When the pending timer of the verification then fires, it is
  C-002, never drafted, that becomes RESOLVED, and C-001 stays OPEN.
\<close>

theorem selecting_while_verifying:
  "workspaceMode verifyingStore = Verifying \<and>
   conflictWorkspace verifyingStore = VerificationView \<and>
   selectedConflictId verifyingStore = Some ''C-001'' \<and>
   clickSidebarItem ''C-002'' verifyingStore = selectConflict ''C-002'' verifyingStore \<and>
   selectConflict ''C-002'' verifyingStore \<noteq> verifyingStore \<and>
   selectedConflictId (selectConflict ''C-002'' verifyingStore) = Some ''C-002'' \<and>
   workspaceMode (selectConflict ''C-002'' verifyingStore) = View \<and>
   resolutionDraft (selectConflict ''C-002'' verifyingStore) = None \<and>
   map c_id (conflicts strayFinalize) = [''C-001'', ''C-002'', ''C-003''] \<and>
   map c_status (conflicts strayFinalize) = [OPEN, RESOLVED, OPEN] \<and>
   map c_resolvedAt (conflicts strayFinalize) = [None, Some firstStamp, None] \<and>
   workspaceMode strayFinalize = Resolved"
proof -
  have "workspaceMode (selectConflict ''C-002'' verifyingStore) \<noteq> workspaceMode verifyingStore"
    by (simp add: verifyingStore_fields selectConflict_def)
  then have changed: "selectConflict ''C-002'' verifyingStore \<noteq> verifyingStore"
    by auto
  have click: "clickSidebarItem ''C-002'' verifyingStore = selectConflict ''C-002'' verifyingStore"
    by (simp add: clickSidebarItem_def verifyingStore_view verifyingStore_fields MOCK_CONFLICTS_def)
  have screen: "conflictWorkspace verifyingStore = VerificationView"
    by (simp add: conflictWorkspace_def selectedConflict_def verifyingStore_fields MOCK_CONFLICTS_def)
  have after: "map c_id (conflicts strayFinalize) = [''C-001'', ''C-002'', ''C-003'']"
    "map c_status (conflicts strayFinalize) = [OPEN, RESOLVED, OPEN]"
    "map c_resolvedAt (conflicts strayFinalize) = [None, Some firstStamp, None]"
    "workspaceMode strayFinalize = Resolved"
    by (simp_all add: strayFinalize_def verificationTimerFires_def click finalizeResolution_def
        selectConflict_def verifyingStore_fields MOCK_CONFLICTS_def markSelected_def)
  from changed click screen after show ?thesis
    by (simp add: verifyingStore_fields selectConflict_def)
qed

section \<open>The finalize step\<close>

lemma resolvedOnce_view: "view resolvedOnce = Dashboard"
  by (simp add: resolvedOnce_def finalizeResolution_def verifyingStore_view)

lemma advance_resolvedOnce: "advance resolvedOnce = selectConflict ''C-002'' resolvedOnce"
  by (simp add: advance_def handleNext_def nextConflict_def selectedConflict_def
      resolvedOnce_fields MOCK_CONFLICTS_def markSelected_def)

lemma advance_resolvedOnce_fields:
  "conflicts (advance resolvedOnce) = map (markSelected firstStamp (Some ''C-001'')) MOCK_CONFLICTS"
  "selectedConflictId (advance resolvedOnce) = Some ''C-002''"
  "workspaceMode (advance resolvedOnce) = View"
  "view (advance resolvedOnce) = Dashboard"
  by (simp_all add: advance_resolvedOnce selectConflict_def resolvedOnce_fields resolvedOnce_view)

lemma verifyingSecond_fields:
  "conflicts verifyingSecond = map (markSelected firstStamp (Some ''C-001'')) MOCK_CONFLICTS"
  "selectedConflictId verifyingSecond = Some ''C-002''"
  "workspaceMode verifyingSecond = Verifying"
  "view verifyingSecond = Dashboard"
  by (simp_all add: verifyingSecond_def advance_resolvedOnce_fields action_defs)

text \<open>
  Claim C3 on the code. C-001 is RESOLVED with the first time as its stamp, and the
  workspace offers no action footer for it. The claim has a second finalize of C-001
  leave the registry alone. In the store a second finalize with C-001 selected replaces
  the stamp by the second time; and the workspace gets there: while C-002 is being
  verified, a click on C-001 in the sidebar selects it, and the pending timer then
  stamps C-001 again, with C-002 still OPEN.
\<close>

theorem resolved_conflict_restamped:
  "map c_status (conflicts resolvedOnce) = [RESOLVED, OPEN, OPEN] \<and>
   map c_resolvedAt (conflicts resolvedOnce) = [Some firstStamp, None, None] \<and>
   selectedConflictId resolvedOnce = Some ''C-001'' \<and>
   map c_resolvedAt (conflicts (finalizeResolution secondStamp resolvedOnce)) =
     [Some secondStamp, None, None] \<and>
   conflicts (finalizeResolution secondStamp resolvedOnce) \<noteq> conflicts resolvedOnce \<and>
   \<not> footerShown (selectConflict ''C-001'' resolvedOnce) \<and>
   conflictWorkspace verifyingSecond = VerificationView \<and>
   selectedConflictId verifyingSecond = Some ''C-002'' \<and>
   map c_resolvedAt (conflicts verifyingSecond) = [Some firstStamp, None, None] \<and>
   clickSidebarItem ''C-001'' verifyingSecond = selectConflict ''C-001'' verifyingSecond \<and>
   map c_status (conflicts restamped) = [RESOLVED, OPEN, OPEN] \<and>
   map c_resolvedAt (conflicts restamped) = [Some secondStamp, None, None] \<and>
   firstStamp \<noteq> secondStamp"
proof -
  have once: "map c_status (conflicts resolvedOnce) = [RESOLVED, OPEN, OPEN]"
    "map c_resolvedAt (conflicts resolvedOnce) = [Some firstStamp, None, None]"
    by (simp_all add: resolvedOnce_fields MOCK_CONFLICTS_def markSelected_def)
  have twice: "map c_resolvedAt (conflicts (finalizeResolution secondStamp resolvedOnce)) =
      [Some secondStamp, None, None]"
    by (simp add: finalizeResolution_def resolvedOnce_fields MOCK_CONFLICTS_def markSelected_def)
  have stamps: "firstStamp \<noteq> secondStamp"
    by (simp add: firstStamp_def secondStamp_def)
  from once(2) twice stamps
  have differ: "conflicts (finalizeResolution secondStamp resolvedOnce) \<noteq> conflicts resolvedOnce"
    by auto
  have footer: "\<not> footerShown (selectConflict ''C-001'' resolvedOnce)"
    by (simp add: footerShown_def selectedConflict_def selectConflict_def resolvedOnce_fields
        MOCK_CONFLICTS_def markSelected_def)
  have screen: "conflictWorkspace verifyingSecond = VerificationView"
    by (simp add: conflictWorkspace_def selectedConflict_def verifyingSecond_fields
        MOCK_CONFLICTS_def markSelected_def)
  have before: "map c_resolvedAt (conflicts verifyingSecond) = [Some firstStamp, None, None]"
    by (simp add: verifyingSecond_fields MOCK_CONFLICTS_def markSelected_def)
  have click: "clickSidebarItem ''C-001'' verifyingSecond = selectConflict ''C-001'' verifyingSecond"
    by (simp add: clickSidebarItem_def verifyingSecond_fields MOCK_CONFLICTS_def markSelected_def)
  have after: "map c_status (conflicts restamped) = [RESOLVED, OPEN, OPEN]"
    "map c_resolvedAt (conflicts restamped) = [Some secondStamp, None, None]"
    by (simp_all add: restamped_def verificationTimerFires_def click finalizeResolution_def
        selectConflict_def verifyingSecond_fields MOCK_CONFLICTS_def markSelected_def)
  from once twice stamps differ footer screen before click after show ?thesis
    by (simp add: resolvedOnce_fields verifyingSecond_fields)
qed

lemma selectedConflict_loadMockData:
  "selectedConflict (loadMockData s) = Some (hd MOCK_CONFLICTS)"
  by (simp add: selectedConflict_def loadMockData_def MOCK_CONFLICTS_def)

text \<open>
  Claim C10. When nothing is selected, or the selected id matches no conflict of the
  registry, the finalize step still sets the workspace mode to resolved and leaves the
  registry (every status and every \<^verbatim>\<open>resolvedAt\<close>) unchanged. The workspace then shows
  the prompt to select a conflict; as soon as the mock data is loaded into that store,
  which selects C-001 and keeps the mode, the workspace shows the resolved view of
  C-001 while all three conflicts are OPEN and none has a stamp. The witness gets
  there from the dashboard: log out and in again during a verification, the pending
  timer fires on the upload screen, then the analysis opens the dashboard.
\<close>

theorem finalize_without_target:
  assumes "selectedConflictId s = None \<or>
           (\<forall>c\<in>set (conflicts s). Some (c_id c) \<noteq> selectedConflictId s)"
  shows "workspaceMode (finalizeResolution now s) = Resolved \<and>
         conflicts (finalizeResolution now s) = conflicts s \<and>
         conflictWorkspace (finalizeResolution now s) = SelectPrompt \<and>
         conflictWorkspace (loadMockData (finalizeResolution now s)) =
           ResolvedView (hd MOCK_CONFLICTS) \<and>
         map c_status (conflicts (loadMockData (finalizeResolution now s))) = [OPEN, OPEN, OPEN] \<and>
         map c_resolvedAt (conflicts (loadMockData (finalizeResolution now s))) = [None, None, None]"
proof -
  from assms have none: "\<forall>c\<in>set (conflicts s). Some (c_id c) \<noteq> selectedConflictId s"
    by auto
  then have same: "conflicts (finalizeResolution now s) = conflicts s"
    by (simp add: finalizeResolution_def map_markSelected_none)
  have mode: "workspaceMode (finalizeResolution now s) = Resolved"
    by (simp add: finalizeResolution_def)
  have sel: "selectedConflictId (finalizeResolution now s) = selectedConflictId s"
    by (simp add: finalizeResolution_def)
  from none have "selectedConflict (finalizeResolution now s) = None"
    unfolding selectedConflict_def find_None_iff same sel by blast
  with mode have prompt: "conflictWorkspace (finalizeResolution now s) = SelectPrompt"
    by (simp add: conflictWorkspace_def)
  have "workspaceMode (loadMockData (finalizeResolution now s)) = Resolved"
    by (simp add: loadMockData_def finalizeResolution_def)
  then have shown: "conflictWorkspace (loadMockData (finalizeResolution now s)) =
      ResolvedView (hd MOCK_CONFLICTS)"
    by (simp add: conflictWorkspace_def selectedConflict_loadMockData)
  have opens: "map c_status (conflicts (loadMockData (finalizeResolution now s))) = [OPEN, OPEN, OPEN]"
    "map c_resolvedAt (conflicts (loadMockData (finalizeResolution now s))) = [None, None, None]"
    by (simp_all add: loadMockData_def MOCK_CONFLICTS_def)
  from mode same prompt shown opens show ?thesis
    by simp
qed

theorem finalize_without_target_witness:
  "selectedConflictId (setAllCleared loadedStore) = None \<and>
   workspaceMode (finalizeResolution firstStamp (setAllCleared loadedStore)) = Resolved \<and>
   conflicts (finalizeResolution firstStamp (setAllCleared loadedStore)) = MOCK_CONFLICTS \<and>
   workspaceMode (finalizeResolution firstStamp (selectConflict ''C-404'' loadedStore)) = Resolved \<and>
   conflicts (finalizeResolution firstStamp (selectConflict ''C-404'' loadedStore)) = MOCK_CONFLICTS \<and>
   conflictWorkspace (finalizeResolution firstStamp (selectConflict ''C-404'' loadedStore)) =
     SelectPrompt \<and>
   map c_status MOCK_CONFLICTS = [OPEN, OPEN, OPEN] \<and>
   selectedConflictId (run [Logout, Login ''analyst''] verifyingStore) = None \<and>
   workspaceMode timerAfterRelogin = Resolved \<and>
   conflicts timerAfterRelogin = [] \<and>
   conflictWorkspace dashboardAfterRelogin = ResolvedView (hd MOCK_CONFLICTS) \<and>
   view dashboardAfterRelogin = Dashboard \<and>
   map c_status (conflicts dashboardAfterRelogin) = [OPEN, OPEN, OPEN] \<and>
   map c_resolvedAt (conflicts dashboardAfterRelogin) = [None, None, None]"
proof -
  have h1: "selectedConflictId (setAllCleared loadedStore) = None"
    by (simp add: setAllCleared_def)
  have h2: "\<forall>c\<in>set (conflicts (selectConflict ''C-404'' loadedStore)).
      Some (c_id c) \<noteq> selectedConflictId (selectConflict ''C-404'' loadedStore)"
    by (simp add: selectConflict_def loadedStore_fields MOCK_CONFLICTS_def)
  have h3: "selectedConflictId (run [Logout, Login ''analyst''] verifyingStore) = None"
    and c3: "conflicts (run [Logout, Login ''analyst''] verifyingStore) = []"
    by (simp_all add: login_def logout_def)
  from finalize_without_target [of "setAllCleared loadedStore" firstStamp] h1
  have p1: "workspaceMode (finalizeResolution firstStamp (setAllCleared loadedStore)) = Resolved \<and>
   conflicts (finalizeResolution firstStamp (setAllCleared loadedStore)) = MOCK_CONFLICTS"
    by (simp add: setAllCleared_def loadedStore_fields)
  from finalize_without_target [of "selectConflict ''C-404'' loadedStore" firstStamp] h2
  have p2: "workspaceMode (finalizeResolution firstStamp (selectConflict ''C-404'' loadedStore)) = Resolved \<and>
   conflicts (finalizeResolution firstStamp (selectConflict ''C-404'' loadedStore)) = MOCK_CONFLICTS \<and>
   conflictWorkspace (finalizeResolution firstStamp (selectConflict ''C-404'' loadedStore)) =
     SelectPrompt"
    by (simp add: selectConflict_def loadedStore_fields)
  have p3: "map c_status MOCK_CONFLICTS = [OPEN, OPEN, OPEN]"
    by (simp add: MOCK_CONFLICTS_def)
  have unfolded: "timerAfterRelogin =
      finalizeResolution firstStamp (run [Logout, Login ''analyst''] verifyingStore)"
    by (simp add: timerAfterRelogin_def verificationTimerFires_def)
  have dash: "conflictWorkspace dashboardAfterRelogin =
      conflictWorkspace (loadMockData timerAfterRelogin)"
    "conflicts dashboardAfterRelogin = conflicts (loadMockData timerAfterRelogin)"
    "view dashboardAfterRelogin = Dashboard"
    by (simp_all add: dashboardAfterRelogin_def setView_def conflictWorkspace_def
        selectedConflict_def loadMockData_def split: option.split)
  from finalize_without_target [of "run [Logout, Login ''analyst''] verifyingStore" firstStamp] h3
  have p4: "workspaceMode timerAfterRelogin = Resolved \<and>
      conflicts timerAfterRelogin = [] \<and>
      conflictWorkspace dashboardAfterRelogin = ResolvedView (hd MOCK_CONFLICTS) \<and>
      map c_status (conflicts dashboardAfterRelogin) = [OPEN, OPEN, OPEN] \<and>
      map c_resolvedAt (conflicts dashboardAfterRelogin) = [None, None, None]"
    unfolding unfolded dash using c3 by simp
  from h1 h3 p1 p2 p3 p4 dash(3) show ?thesis by simp
qed

section \<open>Advancing after a resolution\<close>

text \<open>
  Claim C7. In resolved mode, with the just-resolved conflict \<open>r\<close> selected, advancing
  selects the conflict at the first position \<open>k\<close> of the registry whose status is OPEN and
  whose id differs from the id of \<open>r\<close> (view mode, no draft); when the registry has no
  such conflict, advancing sets the mode to all_cleared and clears the selection.
\<close>
theorem advance_first_open:
  assumes "workspaceMode s = Resolved" and "selectedConflict s = Some r"
  shows "(\<forall>k<length (conflicts s).
            c_status (conflicts s ! k) = OPEN \<and> c_id (conflicts s ! k) \<noteq> c_id r \<and>
            (\<forall>j<k. \<not> (c_status (conflicts s ! j) = OPEN \<and> c_id (conflicts s ! j) \<noteq> c_id r)) \<longrightarrow>
            advance s =
              s\<lparr>selectedConflictId := Some (c_id (conflicts s ! k)), workspaceMode := View,
                resolutionDraft := None\<rparr>) \<and>
         ((\<forall>c\<in>set (conflicts s). \<not> (c_status c = OPEN \<and> c_id c \<noteq> c_id r)) \<longrightarrow>
            advance s = s\<lparr>workspaceMode := All_cleared, selectedConflictId := None\<rparr>)"
proof (intro conjI allI impI)
  fix k
  assume k: "k < length (conflicts s)"
    and first: "c_status (conflicts s ! k) = OPEN \<and> c_id (conflicts s ! k) \<noteq> c_id r \<and>
      (\<forall>j<k. \<not> (c_status (conflicts s ! j) = OPEN \<and> c_id (conflicts s ! j) \<noteq> c_id r))"
  then have "nextConflict r s = Some (conflicts s ! k)"
    unfolding nextConflict_def find_Some_iff by blast
  with assms show "advance s =
      s\<lparr>selectedConflictId := Some (c_id (conflicts s ! k)), workspaceMode := View,
        resolutionDraft := None\<rparr>"
    by (simp add: advance_def handleNext_def selectConflict_def)
next
  assume "\<forall>c\<in>set (conflicts s). \<not> (c_status c = OPEN \<and> c_id c \<noteq> c_id r)"
  then have "nextConflict r s = None"
    unfolding nextConflict_def find_None_iff by blast
  with assms show "advance s = s\<lparr>workspaceMode := All_cleared, selectedConflictId := None\<rparr>"
    by (simp add: advance_def handleNext_def setAllCleared_def)
qed

lemma allResolved_fields:
  "map c_status (conflicts allResolved) = [RESOLVED, RESOLVED, RESOLVED]"
  "map c_id (conflicts allResolved) = [''C-001'', ''C-002'', ''C-003'']"
  "selectedConflictId allResolved = Some ''C-003''"
  "workspaceMode allResolved = Resolved"
  by (simp_all add: allResolved_def resolveSelected_def action_defs advance_def handleNext_def
      nextConflict_def selectedConflict_def resolvedOnce_fields MOCK_CONFLICTS_def markSelected_def)

theorem advance_first_open_witness:
  "workspaceMode resolvedOnce = Resolved \<and>
   selectedConflictId resolvedOnce = Some ''C-001'' \<and>
   selectedConflictId (advance resolvedOnce) = Some ''C-002'' \<and>
   workspaceMode (advance resolvedOnce) = View \<and>
   resolutionDraft (advance resolvedOnce) = None \<and>
   workspaceMode allResolved = Resolved \<and>
   workspaceMode (advance allResolved) = All_cleared \<and>
   selectedConflictId (advance allResolved) = None"
proof -
  have cs: "conflicts resolvedOnce =
      [(MOCK_CONFLICTS ! 0)\<lparr>c_status := RESOLVED, c_resolvedAt := Some firstStamp\<rparr>,
       MOCK_CONFLICTS ! 1, MOCK_CONFLICTS ! 2]"
    by (simp add: resolvedOnce_fields MOCK_CONFLICTS_def markSelected_def)
  have sel: "selectedConflict resolvedOnce =
      Some ((MOCK_CONFLICTS ! 0)\<lparr>c_status := RESOLVED, c_resolvedAt := Some firstStamp\<rparr>)"
    by (simp add: selectedConflict_def cs resolvedOnce_fields MOCK_CONFLICTS_def)
  have k: "1 < length (conflicts resolvedOnce)"
    by (simp add: cs)
  have first: "c_status (conflicts resolvedOnce ! 1) = OPEN \<and>
      c_id (conflicts resolvedOnce ! 1) \<noteq>
        c_id ((MOCK_CONFLICTS ! 0)\<lparr>c_status := RESOLVED, c_resolvedAt := Some firstStamp\<rparr>) \<and>
      (\<forall>j<1. \<not> (c_status (conflicts resolvedOnce ! j) = OPEN \<and>
         c_id (conflicts resolvedOnce ! j) \<noteq>
           c_id ((MOCK_CONFLICTS ! 0)\<lparr>c_status := RESOLVED, c_resolvedAt := Some firstStamp\<rparr>)))"
    by (simp add: cs MOCK_CONFLICTS_def)
  have id1: "c_id (conflicts resolvedOnce ! 1) = ''C-002''"
    by (simp add: cs MOCK_CONFLICTS_def)
  from advance_first_open [OF resolvedOnce_fields(3) sel] k first
  have "advance resolvedOnce =
      resolvedOnce\<lparr>selectedConflictId := Some (c_id (conflicts resolvedOnce ! 1)),
        workspaceMode := View, resolutionDraft := None\<rparr>"
    by blast
  then have p1: "selectedConflictId (advance resolvedOnce) = Some ''C-002'' \<and>
      workspaceMode (advance resolvedOnce) = View \<and> resolutionDraft (advance resolvedOnce) = None"
    using id1 by simp
  obtain r where r: "selectedConflict allResolved = Some r" and rid: "c_id r = ''C-003''"
  proof (cases "selectedConflict allResolved")
    case None
    then have "\<forall>c\<in>set (conflicts allResolved). Some (c_id c) \<noteq> selectedConflictId allResolved"
      unfolding selectedConflict_def find_None_iff by blast
    then have "\<forall>i\<in>set (map c_id (conflicts allResolved)). Some i \<noteq> Some ''C-003''"
      by (simp add: allResolved_fields(3))
    then show ?thesis
      by (simp add: allResolved_fields(2))
  next
    case (Some r)
    then have "Some (c_id r) = selectedConflictId allResolved"
      unfolding selectedConflict_def find_Some_iff by blast
    with Some that show ?thesis
      by (simp add: allResolved_fields(3))
  qed
  have "\<forall>st\<in>set (map c_status (conflicts allResolved)). st \<noteq> OPEN"
    by (simp add: allResolved_fields(1))
  then have none: "\<forall>c\<in>set (conflicts allResolved). \<not> (c_status c = OPEN \<and> c_id c \<noteq> c_id r)"
    by simp
  from advance_first_open [OF allResolved_fields(4) r] none
  have "advance allResolved = allResolved\<lparr>workspaceMode := All_cleared, selectedConflictId := None\<rparr>"
    by blast
  then have p2: "workspaceMode (advance allResolved) = All_cleared \<and>
      selectedConflictId (advance allResolved) = None"
    by simp
  from p1 p2 show ?thesis
    by (simp add: resolvedOnce_fields allResolved_fields)
qed

section \<open>The dirty flag of a manual edit\<close>

lemma find_distinct_id:
  "distinct (map m_id ms) \<Longrightarrow> m \<in> set ms \<Longrightarrow> find (\<lambda>x. m_id x = m_id m) ms = Some m"
  by (induction ms) (auto simp: image_iff)

lemma fold_update_entries:
  "map_of (fold (\<lambda>m es. AList.update (m_id m) (pristineEdit m) es) ms es0) i = Some e \<Longrightarrow>
     (\<exists>m\<in>set ms. m_id m = i \<and> e = pristineEdit m) \<or> map_of es0 i = Some e"
proof (induction ms arbitrary: es0)
  case Nil
  then show ?case by simp
next
  case (Cons m ms)
  from Cons.prems
  have "map_of (fold (\<lambda>m es. AList.update (m_id m) (pristineEdit m) es) ms
          (AList.update (m_id m) (pristineEdit m) es0)) i = Some e"
    by simp
  from Cons.IH [OF this] show ?case
    by (auto simp: update_conv' split: if_splits)
qed

lemma initialEdits_agree:
  assumes "distinct (map m_id (c_mentions c))"
    and "map_of (initialEdits (c_mentions c)) i = Some e"
  shows "dirtyAgrees c i e"
proof -
  from fold_update_entries [of "c_mentions c" "[]" i e] assms(2)
  obtain m where m: "m \<in> set (c_mentions c)" "m_id m = i" "e = pristineEdit m"
    by (auto simp: initialEdits_def)
  from find_distinct_id [OF assms(1) m(1)] m(2)
  have "find (\<lambda>x. m_id x = i) (c_mentions c) = Some m"
    by simp
  with m(3) show ?thesis
    by (simp add: dirtyAgrees_def pristineEdit_def)
qed

lemma originalMention_selected:
  "selectedConflict s = Some c \<Longrightarrow>
     originalMention s i = find (\<lambda>m. m_id m = i) (c_mentions c)"
  by (simp add: originalMention_def)

lemma selectedConflict_editor:
  "editorAction c a \<Longrightarrow> selectedConflict (perform a s) = selectedConflict s"
  by (cases a) (simp_all add: selectedConflict_def initManualDraft_def updateManualEdit_def
      split: option.split)

lemma perform_editor_agrees:
  assumes sel: "selectedConflict s = Some c"
    and dist: "distinct (map m_id (c_mentions c))"
    and act: "editorAction c a"
    and inv: "\<forall>i e. storedEdit s i = Some e \<longrightarrow> dirtyAgrees c i e"
  shows "\<forall>i e. storedEdit (perform a s) i = Some e \<longrightarrow> dirtyAgrees c i e"
proof (cases a)
  case (InitManualDraft c')
  with act have "c' = c" by simp
  then have "\<And>i. storedEdit (perform a s) i = map_of (initialEdits (c_mentions c)) i"
    by (simp add: InitManualDraft storedEdit_def initManualDraft_def)
  with dist show ?thesis
    by (simp add: initialEdits_agree)
next
  case (UpdateManualEdit m t x)
  show ?thesis
  proof (cases "resolutionDraft s")
    case None
    then have "perform a s = s"
      by (simp add: UpdateManualEdit updateManualEdit_def)
    with inv show ?thesis by simp
  next
    case (Some d)
    let ?new = "\<lparr>e_text = t, e_action = x, e_isDirty = computeDirty s m t\<rparr>"
    have st: "\<And>i. storedEdit (perform a s) i = ((map_of (edits d))(m \<mapsto> ?new)) i"
      by (simp add: UpdateManualEdit updateManualEdit_def Some storedEdit_def update_conv')
    have old: "\<And>i. storedEdit s i = map_of (edits d) i"
      by (simp add: storedEdit_def Some)
    have new: "dirtyAgrees c m ?new"
      by (simp add: dirtyAgrees_def computeDirty_def originalMention_selected [OF sel]
          split: option.split)
    show ?thesis
    proof (intro allI impI)
      fix i e
      assume "storedEdit (perform a s) i = Some e"
      then have "(i = m \<and> e = ?new) \<or> (i \<noteq> m \<and> storedEdit s i = Some e)"
        by (auto simp: st old split: if_splits)
      with new inv show "dirtyAgrees c i e"
        by auto
    qed
  qed
qed (use act in simp_all)

lemma run_editor_agrees:
  "selectedConflict s = Some c \<Longrightarrow> distinct (map m_id (c_mentions c)) \<Longrightarrow>
   list_all (editorAction c) acts \<Longrightarrow>
   \<forall>i e. storedEdit s i = Some e \<longrightarrow> dirtyAgrees c i e \<Longrightarrow>
   selectedConflict (run acts s) = Some c \<and>
   (\<forall>i e. storedEdit (run acts s) i = Some e \<longrightarrow> dirtyAgrees c i e)"
proof (induction acts arbitrary: s)
  case Nil
  then show ?case by simp
next
  case (Cons a acts)
  from Cons.prems have act: "editorAction c a" and rest: "list_all (editorAction c) acts"
    by simp_all
  have sel': "selectedConflict (perform a s) = Some c"
    using selectedConflict_editor [OF act] Cons.prems(1) by simp
  have inv': "\<forall>i e. storedEdit (perform a s) i = Some e \<longrightarrow> dirtyAgrees c i e"
    using perform_editor_agrees [OF Cons.prems(1) Cons.prems(2) act Cons.prems(4)] .
  from Cons.IH [OF sel' Cons.prems(2) rest inv'] show ?case
    by simp
qed

text \<open>
  Claim C4, as stated, fails on the store in its second half: with C-003 in the manual
  editor, an edit for the id m9, which no mention of the selected conflict has, is not
  treated as identical to the original; it is stored with \<^verbatim>\<open>isDirty\<close> true.
\<close>
theorem unknown_mention_marked_dirty:
  "originalMention manualDraft ''m9'' = None \<and>
   storedEdit (updateManualEdit ''m9'' ''Total: $52,000'' UPDATE manualDraft) ''m9'' =
     Some \<lparr>e_text = ''Total: $52,000'', e_action = UPDATE, e_isDirty = True\<rparr>"
  by (simp add: manualDraft_def loadedStore_fields pricingConflict_def action_defs storedEdit_def
      computeDirty_def originalMention_def selectedConflict_def MOCK_CONFLICTS_def mention_def
      initialEdits_def pristineEdit_def)

text \<open>
  Claim C4, amended. Let the selected conflict \<open>c\<close> be in the registry with distinct
  mention ids, and let the draft be absent or without edits. After any sequence of
  \<^verbatim>\<open>initManualDraft(c)\<close> and \<^verbatim>\<open>updateManualEdit\<close> calls, every edit stored in the draft has
  \<^verbatim>\<open>isDirty\<close> true if and only if its text differs from the text of the mention with
  that id in the registry; an edit whose id has no mention there has \<^verbatim>\<open>isDirty\<close> true.
\<close>
theorem isDirty_iff_text_differs:
  assumes "selectedConflict s = Some c"
    and "distinct (map m_id (c_mentions c))"
    and "list_all (editorAction c) acts"
    and "case resolutionDraft s of None \<Rightarrow> True | Some d \<Rightarrow> edits d = []"
    and "storedEdit (run acts s) i = Some e"
  shows "e_isDirty e =
     (case originalMention (run acts s) i of None \<Rightarrow> True | Some m \<Rightarrow> e_text e \<noteq> m_text m)"
proof -
  from assms(4) have start: "\<forall>i e. storedEdit s i = Some e \<longrightarrow> dirtyAgrees c i e"
    by (simp add: storedEdit_def split: option.splits)
  from run_editor_agrees [OF assms(1) assms(2) assms(3) start] assms(5)
  have sel: "selectedConflict (run acts s) = Some c" and ag: "dirtyAgrees c i e"
    by simp_all
  from ag show ?thesis
    by (simp add: dirtyAgrees_def originalMention_selected [OF sel])
qed

theorem isDirty_iff_text_differs_witness:
  "storedEdit
     (run [InitManualDraft pricingConflict,
           UpdateManualEdit ''m6'' ''Monthly fee: $52,000 per month'' UPDATE]
        (selectConflict ''C-003'' loadedStore)) ''m6'' =
     Some \<lparr>e_text = ''Monthly fee: $52,000 per month'', e_action = UPDATE, e_isDirty = True\<rparr> \<and>
   storedEdit
     (run [InitManualDraft pricingConflict,
           UpdateManualEdit ''m6'' ''Monthly fee: $52,000 per month'' UPDATE,
           UpdateManualEdit ''m6'' ''Monthly fee: $50,000 per month'' CLARIFY]
        (selectConflict ''C-003'' loadedStore)) ''m6'' =
     Some \<lparr>e_text = ''Monthly fee: $50,000 per month'', e_action = CLARIFY, e_isDirty = False\<rparr>"
proof -
  let ?s = "selectConflict ''C-003'' loadedStore"
  let ?edit = "[InitManualDraft pricingConflict,
      UpdateManualEdit ''m6'' ''Monthly fee: $52,000 per month'' UPDATE]"
  let ?reset = "[InitManualDraft pricingConflict,
      UpdateManualEdit ''m6'' ''Monthly fee: $52,000 per month'' UPDATE,
      UpdateManualEdit ''m6'' ''Monthly fee: $50,000 per month'' CLARIFY]"
  have h1: "selectedConflict ?s = Some pricingConflict"
    by (simp add: selectedConflict_def selectConflict_def loadedStore_fields pricingConflict_def
        MOCK_CONFLICTS_def)
  have h2: "distinct (map m_id (c_mentions pricingConflict))"
    by (simp add: pricingConflict_def MOCK_CONFLICTS_def mention_def)
  have h3: "list_all (editorAction pricingConflict) ?edit"
    and h3': "list_all (editorAction pricingConflict) ?reset"
    by simp_all
  have h4: "case resolutionDraft ?s of None \<Rightarrow> True | Some d \<Rightarrow> edits d = []"
    by (simp add: selectConflict_def)
  have orig: "\<And>acts. list_all (editorAction pricingConflict) acts \<Longrightarrow>
      originalMention (run acts ?s) ''m6'' =
        Some (mention ''m6'' ''d5'' ''Enterprise_Services_Agreement.pdf'' 12 ''4. Fees''
          ''Monthly fee: $50,000 per month'' None)"
    using run_editor_agrees [OF h1 h2] h4
    by (simp add: originalMention_def storedEdit_def selectConflict_def pricingConflict_def
        MOCK_CONFLICTS_def mention_def)
  obtain d1 where e1: "storedEdit (run ?edit ?s) ''m6'' =
      Some \<lparr>e_text = ''Monthly fee: $52,000 per month'', e_action = UPDATE, e_isDirty = d1\<rparr>"
    by (simp add: storedEdit_def initManualDraft_def updateManualEdit_def selectConflict_def
        initialEdits_def pricingConflict_def MOCK_CONFLICTS_def mention_def)
  obtain d2 where e2: "storedEdit (run ?reset ?s) ''m6'' =
      Some \<lparr>e_text = ''Monthly fee: $50,000 per month'', e_action = CLARIFY, e_isDirty = d2\<rparr>"
    by (simp add: storedEdit_def initManualDraft_def updateManualEdit_def selectConflict_def
        initialEdits_def pricingConflict_def MOCK_CONFLICTS_def mention_def)
  from isDirty_iff_text_differs [OF h1 h2 h3 h4 e1] have "d1 = True"
    unfolding orig [OF h3] by (simp add: mention_def)
  moreover from isDirty_iff_text_differs [OF h1 h2 h3' h4 e2] have "d2 = False"
    unfolding orig [OF h3'] by (simp add: mention_def)
  ultimately show ?thesis
    using e1 e2 by simp
qed

section \<open>Writers of the registry\<close>

text \<open>
  Claim C9. Selecting, starting, cancelling, previewing, returning to edit, submitting,
  updating the draft, updating a manual edit and initialising the manual draft all
  return the registry they were given. The finalize step keeps the number and order of
  the conflicts, leaves every conflict whose id is not the selected id as it was, and
  changes nothing but status and \<^verbatim>\<open>resolvedAt\<close> in the others.
\<close>
theorem registry_written_by_finalize_only:
  "conflicts (selectConflict i s) = conflicts s \<and>
   conflicts (startResolution s) = conflicts s \<and>
   conflicts (cancelResolution s) = conflicts s \<and>
   conflicts (goToPreview s) = conflicts s \<and>
   conflicts (returnToEdit s) = conflicts s \<and>
   conflicts (submitResolution s) = conflicts s \<and>
   conflicts (updateDraft u s) = conflicts s \<and>
   conflicts (updateManualEdit m t a s) = conflicts s \<and>
   conflicts (initManualDraft c s) = conflicts s \<and>
   length (conflicts (finalizeResolution now s)) = length (conflicts s) \<and>
   (\<forall>k<length (conflicts s).
      (Some (c_id (conflicts s ! k)) \<noteq> selectedConflictId s \<longrightarrow>
         conflicts (finalizeResolution now s) ! k = conflicts s ! k) \<and>
      (conflicts (finalizeResolution now s) ! k)
         \<lparr>c_status := c_status (conflicts s ! k), c_resolvedAt := c_resolvedAt (conflicts s ! k)\<rparr>
        = conflicts s ! k)"
  by (simp add: conflicts_unchanged finalizeResolution_def markSelected_def)

theorem registry_written_by_finalize_only_witness:
  "conflicts (finalizeResolution firstStamp verifyingStore) ! 1 = MOCK_CONFLICTS ! 1 \<and>
   conflicts (finalizeResolution firstStamp verifyingStore) ! 2 = MOCK_CONFLICTS ! 2 \<and>
   conflicts (finalizeResolution firstStamp verifyingStore) ! 0 \<noteq> MOCK_CONFLICTS ! 0 \<and>
   conflicts (updateManualEdit ''m6'' ''Monthly fee: $52,000 per month'' UPDATE manualDraft) =
     conflicts manualDraft"
proof -
  have len: "1 < length (conflicts verifyingStore)" "2 < length (conflicts verifyingStore)"
    by (simp_all add: verifyingStore_fields MOCK_CONFLICTS_def)
  have ids: "Some (c_id (conflicts verifyingStore ! 1)) \<noteq> selectedConflictId verifyingStore"
    "Some (c_id (conflicts verifyingStore ! 2)) \<noteq> selectedConflictId verifyingStore"
    by (simp_all add: verifyingStore_fields MOCK_CONFLICTS_def)
  note frame = registry_written_by_finalize_only [of _ verifyingStore _ _ _ _ _ firstStamp]
  from frame len(1) ids(1)
  have p1: "conflicts (finalizeResolution firstStamp verifyingStore) ! 1 = MOCK_CONFLICTS ! 1"
    by (simp add: verifyingStore_fields)
  from frame len(2) ids(2)
  have p2: "conflicts (finalizeResolution firstStamp verifyingStore) ! 2 = MOCK_CONFLICTS ! 2"
    by (simp add: verifyingStore_fields)
  have "c_status (conflicts (finalizeResolution firstStamp verifyingStore) ! 0) \<noteq>
      c_status (MOCK_CONFLICTS ! 0)"
    by (simp add: finalizeResolution_def verifyingStore_fields MOCK_CONFLICTS_def markSelected_def)
  then have p3: "conflicts (finalizeResolution firstStamp verifyingStore) ! 0 \<noteq> MOCK_CONFLICTS ! 0"
    by auto
  from registry_written_by_finalize_only
    [of _ manualDraft _ "''m6''" "''Monthly fee: $52,000 per month''" UPDATE]
  have p4: "conflicts (updateManualEdit ''m6'' ''Monthly fee: $52,000 per month'' UPDATE manualDraft) =
     conflicts manualDraft"
    by simp
  from p1 p2 p3 p4 show ?thesis by simp
qed

section \<open>Requirements the forms display\<close>

text \<open>
  Claim C1 on the code. The contradiction C-002 is in resolve mode with the reasoning
  "ok" (2 characters, the counter under the box is red) and no statement picked. The
  claim has the step to preview refused; the "Preview Changes" button and the store's
  \<^verbatim>\<open>goToPreview\<close> both take the workspace to preview mode. The same holds for the
  temporal conflict C-001 with no mention chosen and for the intra-document conflict
  C-003 with no edit dirty.
\<close>

theorem preview_unchecked:
  "selectedConflictId contradictionDraft = Some ''C-002'' \<and>
   map_option c_type (selectedConflict contradictionDraft) = Some CONTRADICTION \<and>
   workspaceMode contradictionDraft = Resolve \<and>
   map_option reasoning (resolutionDraft contradictionDraft) = Some (Some ''ok'') \<and>
   map_option selectedCorrectId (resolutionDraft contradictionDraft) = Some None \<and>
   reasoningLength contradictionDraft = 2 \<and>
   reasoningCounterRed contradictionDraft \<and>
   workspaceMode (clickPreviewChanges contradictionDraft) = Preview \<and>
   workspaceMode (goToPreview contradictionDraft) = Preview \<and>
   map_option c_type (selectedConflict (startResolution loadedStore)) = Some TEMPORAL \<and>
   map_option selectedTemporalId (resolutionDraft (startResolution loadedStore)) = Some None \<and>
   workspaceMode (clickPreviewChanges (startResolution loadedStore)) = Preview \<and>
   map_option c_type (selectedConflict manualDraft) = Some INTRA_DOC \<and>
   map_option (map (e_isDirty \<circ> snd) \<circ> edits) (resolutionDraft manualDraft) =
     Some [False, False, False] \<and>
   workspaceMode (clickPreviewChanges manualDraft) = Preview"
  by (simp add: contradictionDraft_def manualDraft_def pricingConflict_def loadedStore_fields
      action_defs reasoningOnly_def mergeDraft_def spread_def selectedConflict_def
      reasoningLength_def reasoningCounterRed_def clickPreviewChanges_def footerShown_def
      initialEdits_def pristineEdit_def MOCK_CONFLICTS_def mention_def)

text \<open>
  Claim C8 on the code. With C-003 in the manual editor, a text of 1001 characters typed
  into the box of mention m6 is stored whole in the draft, and the counter the form
  prints against 1000 reads 1001; the store's \<^verbatim>\<open>updateManualEdit\<close> stores it as well.
\<close>
theorem editor_accepts_1001_characters:
  "length longText = 1001 \<and>
   workspaceMode manualDraft = Resolve \<and>
   map_option e_text (storedEdit (typeIntoEditor ''m6'' longText manualDraft) ''m6'') = Some longText \<and>
   charCount (typeIntoEditor ''m6'' longText manualDraft) ''m6'' = 1001 \<and>
   map_option e_text (storedEdit (updateManualEdit ''m6'' longText UPDATE manualDraft) ''m6'') =
     Some longText"
  by (simp add: longText_def manualDraft_def loadedStore_fields pricingConflict_def
      selectConflict_def initManualDraft_def updateManualEdit_def typeIntoEditor_def
      storedEdit_def charCount_def initialEdits_def MOCK_CONFLICTS_def mention_def
      update_conv')

end
